theory Spec2Isabelle
  imports Complex_Main
begin

section \<open>Python values, strings and exceptions\<close>

text \<open>
  The values that occur in index metadata, in filters and in documents: \<open>None\<close>,
  integers and strings. The strings that the source only splits, replaces in, measures,
  slices and concatenates are ASCII text, one \<open>char\<close> per code point. The query type,
  which the source upper-cases, is a list of Unicode code points (see \<open>py_upper\<close>).
\<close>

datatype pyval = PNone | PInt int | PStr string

text \<open>Truthiness as \<open>bool(v)\<close> computes it.\<close>

fun py_truthy :: "pyval \<Rightarrow> bool" where
  "py_truthy PNone = False"
| "py_truthy (PInt i) = (i \<noteq> 0)"
| "py_truthy (PStr s) = (s \<noteq> [])"

text \<open>Truthiness of an \<open>Optional[str]\<close>: \<open>None\<close> and the empty string are falsy,
  whatever the alphabet.\<close>

fun str_truthy :: "'a list option \<Rightarrow> bool" where
  "str_truthy None = False"
| "str_truthy (Some s) = (s \<noteq> [])"

text \<open>Decimal rendering of integers, as \<open>str\<close> and f-strings produce it.\<close>

definition digit_char :: "nat \<Rightarrow> char" where
  "digit_char d = char_of (48 + d)"

function str_nat :: "nat \<Rightarrow> string" where
  "str_nat n = (if n < 10 then [digit_char n] else str_nat (n div 10) @ [digit_char (n mod 10)])"
  by pat_completeness auto
termination
  by (relation "measure (\<lambda>n. n)") auto

declare str_nat.simps [simp del]

definition str_int :: "int \<Rightarrow> string" where
  "str_int i = (if i < 0 then CHR ''-'' # str_nat (nat (- i)) else str_nat (nat i))"

fun py_str :: "pyval \<Rightarrow> string" where
  "py_str PNone = ''None''"
| "py_str (PInt i) = str_int i"
| "py_str (PStr s) = s"

text \<open>\<open>s.split(sep)\<close> for a one-character separator: never empty, one more segment than
  separators.\<close>

fun py_split :: "char \<Rightarrow> string \<Rightarrow> string list" where
  "py_split sep [] = [[]]"
| "py_split sep (c # cs) =
     (if c = sep then [] # py_split sep cs
      else (case py_split sep cs of
              [] \<Rightarrow> [[c]]
            | w # ws \<Rightarrow> (c # w) # ws))"

text \<open>\<open>s.replace(old, new)\<close> for a one-character \<open>old\<close>.\<close>

definition py_replace :: "char \<Rightarrow> string \<Rightarrow> string \<Rightarrow> string" where
  "py_replace old new s = concat (map (\<lambda>c. if c = old then new else [c]) s)"

text \<open>
  \<open>s.upper()\<close> on a string of Unicode code points. Python upper-cases a string code
  point by code point, each to its full upper-case mapping (one code point or several),
  and concatenates. Below 128 the mapping is the ASCII one: \<open>a\<close> to \<open>z\<close> go to \<open>A\<close> to
  \<open>Z\<close>, the rest stay. U+0131 (305, the dotless small i) goes to \<open>I\<close> (73). The line of
  every other code point is in Unicode's case table, which is no part of the source:
  it is the parameter \<open>table\<close>.
\<close>

definition ascii_upper :: "nat \<Rightarrow> nat" where
  "ascii_upper c = (if 97 \<le> c \<and> c \<le> 122 then c - 32 else c)"

definition upper_code_point :: "(nat \<Rightarrow> nat list) \<Rightarrow> nat \<Rightarrow> nat list" where
  "upper_code_point table c =
     (if c < 128 then [ascii_upper c] else if c = 305 then [73] else table c)"

definition py_upper :: "(nat \<Rightarrow> nat list) \<Rightarrow> nat list \<Rightarrow> nat list" where
  "py_upper table s = concat (map (upper_code_point table) s)"

text \<open>The code points of an ASCII literal, and those of the literal \<open>"HYBRID"\<close>.\<close>

definition code_points_of :: "string \<Rightarrow> nat list" where
  "code_points_of s = map of_char s"

definition HYBRID :: "nat list" where
  "HYBRID = [72, 89, 66, 82, 73, 68]"

text \<open>The slice \<open>s[-k:]\<close> for \<open>k > 0\<close>: the last \<open>k\<close> characters, or all of \<open>s\<close> when it is
  shorter.\<close>

definition py_last_chars :: "nat \<Rightarrow> string \<Rightarrow> string" where
  "py_last_chars k s = drop (length s - k) s"

text \<open>\<open>d.get(k)\<close> on a dictionary kept as an association list.\<close>

definition dict_get :: "(string \<times> pyval) list \<Rightarrow> string \<Rightarrow> pyval" where
  "dict_get d k = (case map_of d k of None \<Rightarrow> PNone | Some v \<Rightarrow> v)"

text \<open>
  Exceptions. \<open>ResourceDoesNotExist\<close> stands for that class of the Databricks SDK and its
  subclasses (what \<open>except ResourceDoesNotExist\<close> catches); \<open>OtherError\<close> for every
  exception class that the source neither raises nor names.
\<close>

datatype error =
    ValueError string
  | IndexError
  | AttributeError string
  | UnboundLocalError string
  | ResourceDoesNotExist
  | OtherError string

section \<open>Data model\<close>

type_synonym document = "(string \<times> pyval) list"

text \<open>
  \<open>IndexDetails\<close>: the cached index metadata, by what the source reads of it: the answer
  of \<open>is_databricks_managed_embeddings()\<close> and the dictionary \<open>embedding_vector_column\<close>.
\<close>

record IndexDetails =
  is_databricks_managed_embeddings :: bool
  embedding_vector_column :: "(string \<times> pyval) list"

text \<open>The \<open>ChatCompletionToolParam\<close> that \<open>pydantic_function_tool\<close> returns is opaque
  (\<open>'tp\<close>), as are index handles (\<open>'idx\<close>), raw search responses (\<open>'resp\<close>) and
  resource references (\<open>'res\<close>).\<close>

record ('idx, 'tp, 'res) VectorSearchRetrieverTool =
  index_name :: string
  num_results :: int
  columns :: "string list option"
  filters :: "document option"
  query_type :: "nat list option"
  tool_name :: "string option"
  tool_description :: "string option"
  resources :: "'res list option"
  text_column :: "string option"
  embedding_model_name :: "string option"
  tool :: "'tp option"
  priv_index :: "'idx option"
  priv_index_details :: "IndexDetails option"

text \<open>The keyword arguments of one \<open>similarity_search\<close> call.\<close>

record search_request =
  sr_columns :: "string list option"
  sr_query_text :: "string option"
  sr_query_vector :: "real list option"
  sr_filters :: "document option"
  sr_num_results :: int
  sr_query_type :: "nat list option"

text \<open>What a call does to the world outside the object, in order: calls to external
  services and log records.\<close>

datatype 'idx call =
    Call_VectorSearchClient
  | Call_get_index string
  | Call_IndexDetails 'idx
  | Log_warning string
  | Call_WorkspaceClient
  | Call_serving_endpoints_get "string option"
  | Call_OpenAI
  | Call_embeddings_create string "string option"
  | Call_similarity_search 'idx search_request

text \<open>
  An OpenAI client, by what \<open>execute\<close> uses of it: \<open>api_key\<close>, and
  \<open>embeddings.create(input, model)\<close>, which answers with the list \<open>.data\<close> of embeddings
  or raises.
\<close>

record oai_client =
  api_key :: "string option"
  embeddings_create :: "string \<Rightarrow> string option \<Rightarrow> error + real list list"

text \<open>
  The collaborators that are not part of this file, as parameters. A call that can
  raise returns \<open>Inl\<close> of the exception. Within one call of the validator or of
  \<open>execute\<close> each of them is called at most once, so a function of the arguments
  describes it. The last field is Unicode's upper-case table for \<open>py_upper\<close>.
\<close>

record ('idx, 'resp, 'tp, 'res) env =
  new_VectorSearchClient :: "error + unit"
  get_index :: "string \<Rightarrow> error + 'idx"
  new_IndexDetails :: "'idx \<Rightarrow> error + IndexDetails"
  validate_and_get_text_column :: "string option \<Rightarrow> IndexDetails \<Rightarrow> error + string"
  validate_and_get_return_columns ::
    "string list \<Rightarrow> string \<Rightarrow> IndexDetails \<Rightarrow> error + string list"
  get_default_tool_description :: "IndexDetails \<Rightarrow> string"
  pydantic_function_tool :: "string \<Rightarrow> string \<Rightarrow> error + 'tp"
  import_WorkspaceClient :: "error + unit"
  import_ResourceDoesNotExist :: "error + unit"
  new_WorkspaceClient :: "error + unit"
  serving_endpoints_get :: "string option \<Rightarrow> error + unit"
  get_resources :: "string \<Rightarrow> string option \<Rightarrow> 'res list"
  new_OpenAI :: "error + oai_client"
  similarity_search :: "'idx \<Rightarrow> search_request \<Rightarrow> error + 'resp"
  parse_vector_search_response ::
    "'resp \<Rightarrow> IndexDetails \<Rightarrow> string option \<Rightarrow> error + (document \<times> real) list"
  unicode_upper :: "nat \<Rightarrow> nat list"

section \<open>The validator\<close>

text \<open>
  The nested function \<open>get_tool_name\<close> (lines 118 to 125): the log records it emits and the
  name it returns.
\<close>

definition get_tool_name ::
  "('idx, 'tp, 'res) VectorSearchRetrieverTool \<Rightarrow> 'idx call list \<times> string" where
  "get_tool_name self =
     (let name = (if str_truthy (tool_name self) then the (tool_name self)
                  else py_replace (CHR ''.'') ''__'' (index_name self))
      in if length name > 64
         then ([Log_warning (''Tool name '' @ name @
                 '' is too long, truncating to 64 characters '' @ py_last_chars 64 name @ ''.'')],
               py_last_chars 64 name)
         else ([], name))"

text \<open>
  Lines 134 to 141: the \<open>try\<close> block and its handler. The two imports bind the local
  names \<open>WorkspaceClient\<close> and \<open>ResourceDoesNotExist\<close>; when one of them raises,
  matching the exception against \<open>except ResourceDoesNotExist\<close> reads a local name that is
  not bound yet, which raises \<open>UnboundLocalError\<close> in place of the import's exception.
  Once both names are bound, a \<open>ResourceDoesNotExist\<close> from the \<open>try\<close> body is handled and
  every other exception leaves the validator.
\<close>

definition on_lookup_error ::
  "('idx, 'resp, 'tp, 'res) env \<Rightarrow> ('idx, 'tp, 'res) VectorSearchRetrieverTool \<Rightarrow>
   'idx call list \<Rightarrow> error \<Rightarrow>
   'idx call list \<times> (error + ('idx, 'tp, 'res) VectorSearchRetrieverTool)" where
  "on_lookup_error env self cs e =
     (if e = ResourceDoesNotExist
      then (cs, Inr (self\<lparr>resources := Some (get_resources env (index_name self) None)\<rparr>))
      else (cs, Inl e))"

definition set_resources ::
  "('idx, 'resp, 'tp, 'res) env \<Rightarrow> ('idx, 'tp, 'res) VectorSearchRetrieverTool \<Rightarrow>
   'idx call list \<times> (error + ('idx, 'tp, 'res) VectorSearchRetrieverTool)" where
  "set_resources env self =
     (case import_WorkspaceClient env of
        Inl e \<Rightarrow> ([], Inl (UnboundLocalError ''ResourceDoesNotExist''))
      | Inr _ \<Rightarrow>
     (case import_ResourceDoesNotExist env of
        Inl e \<Rightarrow> ([], Inl (UnboundLocalError ''ResourceDoesNotExist''))
      | Inr _ \<Rightarrow>
     (case new_WorkspaceClient env of
        Inl e \<Rightarrow> on_lookup_error env self [Call_WorkspaceClient] e
      | Inr _ \<Rightarrow>
     (case serving_endpoints_get env (embedding_model_name self) of
        Inl e \<Rightarrow>
          on_lookup_error env self
            [Call_WorkspaceClient, Call_serving_endpoints_get (embedding_model_name self)] e
      | Inr _ \<Rightarrow>
          ([Call_WorkspaceClient, Call_serving_endpoints_get (embedding_model_name self)],
           Inr (self\<lparr>resources :=
                  Some (get_resources env (index_name self) (embedding_model_name self))\<rparr>))))))"

text \<open>
  \<open>_validate_tool_inputs\<close> (lines 90 to 143). It assigns to the object as it goes; when it
  raises, the construction fails and the object is dropped, so the result is the
  exception or the validated object, with the calls made up to there. The import on
  line 91 names a module that line 4 has loaded already.
\<close>

definition validate_tool_inputs ::
  "('idx, 'resp, 'tp, 'res) env \<Rightarrow> ('idx, 'tp, 'res) VectorSearchRetrieverTool \<Rightarrow>
   'idx call list \<times> (error + ('idx, 'tp, 'res) VectorSearchRetrieverTool)" where
  "validate_tool_inputs env self =
     (let splits = py_split (CHR ''.'') (index_name self) in
      if length splits \<noteq> 3
      then ([], Inl (ValueError (''Index name '' @ index_name self @
                       '' is not in the expected format 'catalog.schema.index'.'')))
      else
     (case new_VectorSearchClient env of
        Inl e \<Rightarrow> ([Call_VectorSearchClient], Inl e)
      | Inr _ \<Rightarrow>
     (case get_index env (index_name self) of
        Inl e \<Rightarrow> ([Call_VectorSearchClient, Call_get_index (index_name self)], Inl e)
      | Inr idx \<Rightarrow>
     (let self1 = self\<lparr>priv_index := Some idx\<rparr>;
          cs = [Call_VectorSearchClient, Call_get_index (index_name self), Call_IndexDetails idx]
      in
     (case new_IndexDetails env idx of
        Inl e \<Rightarrow> (cs, Inl e)
      | Inr details \<Rightarrow>
     (let self2 = self1\<lparr>priv_index_details := Some details\<rparr> in
     (case validate_and_get_text_column env (text_column self2) details of
        Inl e \<Rightarrow> (cs, Inl e)
      | Inr tc \<Rightarrow>
     (let self3 = self2\<lparr>text_column := Some tc\<rparr> in
     (case validate_and_get_return_columns env
             (case columns self3 of None \<Rightarrow> [] | Some c \<Rightarrow> c) tc details of
        Inl e \<Rightarrow> (cs, Inl e)
      | Inr cols \<Rightarrow>
     (let self4 = self3\<lparr>columns := Some cols\<rparr> in
      if \<not> is_databricks_managed_embeddings details \<and> \<not> str_truthy (embedding_model_name self4)
      then (cs, Inl (ValueError
              (''The embedding model name is required for non-Databricks-managed '' @
               ''embeddings Vector Search indexes in order to generate embeddings for retrieval queries.'')))
      else
     (let (warnings, name) = get_tool_name self4;
          description = (if str_truthy (tool_description self4) then the (tool_description self4)
                         else get_default_tool_description env details)
      in
     (case pydantic_function_tool env name description of
        Inl e \<Rightarrow> (cs @ warnings, Inl e)
      | Inr t \<Rightarrow>
     (case set_resources env (self4\<lparr>tool := Some t\<rparr>) of
        (cs', r) \<Rightarrow> (cs @ warnings @ cs', r)
     )))))))))))))"

section \<open>Execute\<close>

text \<open>
  A call of \<open>execute\<close> yields the calls it made, what it returned or raised, and the
  object as the call leaves it.
\<close>

record ('idx, 'tp, 'res) outcome =
  calls :: "'idx call list"
  result :: "error + document list"
  self_after :: "('idx, 'tp, 'res) VectorSearchRetrieverTool"

text \<open>Lines 190 to 204: the search, the parse, and the documents without their scores.\<close>

definition search_and_parse ::
  "('idx, 'resp, 'tp, 'res) env \<Rightarrow> ('idx, 'tp, 'res) VectorSearchRetrieverTool \<Rightarrow>
   IndexDetails \<Rightarrow> 'idx call list \<Rightarrow> string option \<Rightarrow> real list option \<Rightarrow>
   ('idx, 'tp, 'res) outcome" where
  "search_and_parse env self details cs query_text query_vector =
     (case priv_index self of
        None \<Rightarrow> \<lparr>calls = cs, result = Inl (AttributeError ''_index''), self_after = self\<rparr>
      | Some idx \<Rightarrow>
     (let req = \<lparr>sr_columns = columns self, sr_query_text = query_text,
                 sr_query_vector = query_vector, sr_filters = filters self,
                 sr_num_results = num_results self, sr_query_type = query_type self\<rparr>;
          cs' = cs @ [Call_similarity_search idx req]
      in
     (case similarity_search env idx req of
        Inl e \<Rightarrow> \<lparr>calls = cs', result = Inl e, self_after = self\<rparr>
      | Inr search_resp \<Rightarrow>
     (case parse_vector_search_response env search_resp details (text_column self) of
        Inl e \<Rightarrow> \<lparr>calls = cs', result = Inl e, self_after = self\<rparr>
      | Inr docs_with_score \<Rightarrow>
          \<lparr>calls = cs', result = Inr (map fst docs_with_score), self_after = self\<rparr>))))"

text \<open>
  \<open>execute\<close> (lines 146 to 204). The tracing decorator is instrumentation around the call
  and the import on line 167 names a module that line 18 has loaded already; neither is a
  branch. Reading a private attribute that the validator has not set raises
  \<open>AttributeError\<close>.
\<close>

definition execute ::
  "('idx, 'resp, 'tp, 'res) env \<Rightarrow> ('idx, 'tp, 'res) VectorSearchRetrieverTool \<Rightarrow>
   string \<Rightarrow> oai_client option \<Rightarrow> ('idx, 'tp, 'res) outcome" where
  "execute env self query openai_client =
     (case priv_index_details self of
        None \<Rightarrow> \<lparr>calls = [], result = Inl (AttributeError ''_index_details''), self_after = self\<rparr>
      | Some details \<Rightarrow>
      if is_databricks_managed_embeddings details
      then search_and_parse env self details [] (Some query) None
      else
     (case (case openai_client of
              Some c \<Rightarrow> ([], Inr c)
            | None \<Rightarrow> ([Call_OpenAI], new_OpenAI env)) of
        (cs, Inl e) \<Rightarrow> \<lparr>calls = cs, result = Inl e, self_after = self\<rparr>
      | (cs, Inr oai) \<Rightarrow>
      if \<not> str_truthy (api_key oai)
      then \<lparr>calls = cs,
            result = Inl (ValueError
              ''OpenAI API key is required to generate embeddings for retrieval queries.''),
            self_after = self\<rparr>
      else
     (let query_text = (if str_truthy (query_type self) \<and>
                           py_upper (unicode_upper env) (the (query_type self)) = HYBRID
                        then Some query else None);
          cs' = cs @ [Call_embeddings_create query (embedding_model_name self)]
      in
     (case embeddings_create oai query (embedding_model_name self) of
        Inl e \<Rightarrow> \<lparr>calls = cs', result = Inl e, self_after = self\<rparr>
      | Inr [] \<Rightarrow> \<lparr>calls = cs', result = Inl IndexError, self_after = self\<rparr>
      | Inr (query_vector # _) \<Rightarrow>
     (let index_embedding_dimension =
            dict_get (embedding_vector_column details) ''embedding_dimension''
      in
      if py_truthy index_embedding_dimension \<and>
         PInt (int (length query_vector)) \<noteq> index_embedding_dimension
      then \<lparr>calls = cs',
            result = Inl (ValueError (''Expected embedding dimension '' @
                       py_str index_embedding_dimension @ '' but got '' @
                       str_int (int (length query_vector)))),
            self_after = self\<rparr>
      else search_and_parse env self details cs' query_text (Some query_vector))))))"

section \<open>A small configuration to run the model on\<close>

text \<open>
  One index with managed embeddings and one with self-managed embeddings of dimension
  768, collaborators that answer, and a tool as a user constructs it. The search
  answers with two scored documents, which the parser hands through. The case table
  has the line of U+00DF (sharp s, to \<open>SS\<close>) and leaves every other code point in place;
  no example reads it.
\<close>

definition example_managed :: IndexDetails where
  "example_managed = \<lparr>is_databricks_managed_embeddings = True, embedding_vector_column = []\<rparr>"

definition example_self_managed :: IndexDetails where
  "example_self_managed =
     \<lparr>is_databricks_managed_embeddings = False,
      embedding_vector_column = [(''name'', PStr ''vec''), (''embedding_dimension'', PInt 768)]\<rparr>"

definition example_env ::
  "IndexDetails \<Rightarrow> (nat, (document \<times> real) list, string \<times> string, string) env" where
  "example_env details =
     \<lparr>new_VectorSearchClient = Inr (),
      get_index = (\<lambda>name. Inr 7),
      new_IndexDetails = (\<lambda>idx. Inr details),
      validate_and_get_text_column = (\<lambda>tc d. Inr (case tc of None \<Rightarrow> ''text'' | Some t \<Rightarrow> t)),
      validate_and_get_return_columns = (\<lambda>cols tc d. Inr cols),
      get_default_tool_description = (\<lambda>d. ''A vector search-based retrieval tool''),
      pydantic_function_tool = (\<lambda>name description. Inr (name, description)),
      import_WorkspaceClient = Inr (),
      import_ResourceDoesNotExist = Inr (),
      new_WorkspaceClient = Inr (),
      serving_endpoints_get =
        (\<lambda>name. if name = Some ''embedder'' then Inr () else Inl ResourceDoesNotExist),
      get_resources =
        (\<lambda>index embedding. index # (case embedding of None \<Rightarrow> [] | Some m \<Rightarrow> [m])),
      new_OpenAI = Inl (OtherError ''OpenAIError''),
      similarity_search =
        (\<lambda>idx req. Inr [([(''id'', PInt 1), (''text'', PStr ''a'')], 0.9),
                        ([(''id'', PInt 2), (''text'', PStr ''b'')], 0.5)]),
      parse_vector_search_response = (\<lambda>resp d tc. Inr resp),
      unicode_upper = (\<lambda>c. if c = 223 then [83, 83] else [c])\<rparr>"

definition example_tool :: "(nat, string \<times> string, string) VectorSearchRetrieverTool" where
  "example_tool =
     \<lparr>index_name = ''catalog.schema.my_index_name'', num_results = 5, columns = None,
      filters = None, query_type = Some (code_points_of ''ANN''), tool_name = None, tool_description = None,
      resources = None, text_column = None, embedding_model_name = None, tool = None,
      priv_index = None, priv_index_details = None\<rparr>"

definition example_client :: "nat \<Rightarrow> oai_client" where
  "example_client n =
     \<lparr>api_key = Some ''sk-test'', embeddings_create = (\<lambda>input model. Inr [replicate n 0])\<rparr>"

text \<open>The tool once the validator has filled in the derived fields.\<close>

definition example_validated ::
  "IndexDetails \<Rightarrow> (nat, string \<times> string, string) VectorSearchRetrieverTool" where
  "example_validated details =
     example_tool\<lparr>columns := Some [], text_column := Some ''text'',
                  priv_index := Some 7, priv_index_details := Some details\<rparr>"

section \<open>Case-insensitive comparison, as the specification words it\<close>

text \<open>
  Two strings are equal case-insensitively when they agree after lowering the letters
  \<open>A\<close> to \<open>Z\<close>. This is the specification's reading of the query-type test; the source
  compares \<open>query_type.upper()\<close> with \<open>"HYBRID"\<close>. The two readings part at the dotless
  small i, which differs from \<open>i\<close> and from \<open>I\<close> in every lower-casing and case folding
  and yet has \<open>I\<close> for its upper case; \<open>dotless_to_i\<close> puts \<open>i\<close> in its place.
\<close>

definition ascii_lower :: "nat \<Rightarrow> nat" where
  "ascii_lower c = (if 65 \<le> c \<and> c \<le> 90 then c + 32 else c)"

definition equal_ignoring_case :: "nat list \<Rightarrow> nat list \<Rightarrow> bool" where
  "equal_ignoring_case s t = (map ascii_lower s = map ascii_lower t)"

definition dotless_to_i :: "nat \<Rightarrow> nat" where
  "dotless_to_i c = (if c = 305 then 105 else c)"

section \<open>Reading the validator\<close>

text \<open>
  Lines 95 to 132 of the validator raise nothing: the index name has three segments,
  the index and its metadata resolve to \<open>idx\<close> and \<open>details\<close>, the two column
  validations answer \<open>tc\<close> and \<open>cols\<close>, an index with self-managed embeddings comes with
  an embedding model name, and the tool builder answers \<open>t\<close> for the derived name and
  description.
\<close>

definition passes_checks ::
  "('idx, 'resp, 'tp, 'res) env \<Rightarrow> ('idx, 'tp, 'res) VectorSearchRetrieverTool \<Rightarrow>
   'idx \<Rightarrow> IndexDetails \<Rightarrow> string \<Rightarrow> string list \<Rightarrow> 'tp \<Rightarrow> bool" where
  "passes_checks env self idx details tc cols t =
     (length (py_split (CHR ''.'') (index_name self)) = 3 \<and>
      new_VectorSearchClient env = Inr () \<and>
      get_index env (index_name self) = Inr idx \<and>
      new_IndexDetails env idx = Inr details \<and>
      validate_and_get_text_column env (text_column self) details = Inr tc \<and>
      validate_and_get_return_columns env
        (case columns self of None \<Rightarrow> [] | Some c \<Rightarrow> c) tc details = Inr cols \<and>
      (is_databricks_managed_embeddings details \<or> str_truthy (embedding_model_name self)) \<and>
      pydantic_function_tool env (snd (get_tool_name self))
        (if str_truthy (tool_description self) then the (tool_description self)
         else get_default_tool_description env details) = Inr t)"

text \<open>The object as those lines leave it.\<close>

definition checked ::
  "('idx, 'tp, 'res) VectorSearchRetrieverTool \<Rightarrow> 'idx \<Rightarrow> IndexDetails \<Rightarrow> string \<Rightarrow>
   string list \<Rightarrow> 'tp \<Rightarrow> ('idx, 'tp, 'res) VectorSearchRetrieverTool" where
  "checked self idx details tc cols t =
     self\<lparr>priv_index := Some idx, priv_index_details := Some details, text_column := Some tc,
          columns := Some cols, tool := Some t\<rparr>"

text \<open>
  The specification's wording of the default tool name: the index name with each dot
  replaced by two underscores. The source calls \<open>replace(".", "__")\<close>.
\<close>

fun dots_to_double_underscores :: "string \<Rightarrow> string" where
  "dots_to_double_underscores [] = []"
| "dots_to_double_underscores (c # cs) =
     (if c = CHR ''.'' then CHR ''_'' # CHR ''_'' # dots_to_double_underscores cs
      else c # dots_to_double_underscores cs)"

text \<open>The example tool with an override of 65 characters for the tool name.\<close>

definition example_long_name :: "(nat, string \<times> string, string) VectorSearchRetrieverTool" where
  "example_long_name = example_tool\<lparr>tool_name := Some (CHR ''a'' # replicate 64 (CHR ''b''))\<rparr>"

section \<open>Facts about the string functions\<close>

lemma HYBRID_literal: "HYBRID = code_points_of ''HYBRID''"
  by code_simp

lemma ascii_lower_upper: "ascii_lower (ascii_upper c) = ascii_lower c"
  by (simp add: ascii_lower_def ascii_upper_def) arith

lemma ascii_upper_lower: "ascii_upper (ascii_lower c) = ascii_upper c"
  by (simp add: ascii_lower_def ascii_upper_def)

lemma ascii_upper_HYBRID: "map ascii_upper HYBRID = HYBRID"
  by (simp add: HYBRID_def ascii_upper_def)

lemma ascii_upper_eq_HYBRID_iff:
  "map ascii_upper s = HYBRID \<longleftrightarrow> equal_ignoring_case s HYBRID"
proof
  assume "map ascii_upper s = HYBRID"
  then have "map ascii_lower (map ascii_upper s) = map ascii_lower HYBRID"
    by simp
  then show "equal_ignoring_case s HYBRID"
    by (simp add: equal_ignoring_case_def ascii_lower_upper comp_def)
next
  assume "equal_ignoring_case s HYBRID"
  then have "map ascii_upper (map ascii_lower s) = map ascii_upper (map ascii_lower HYBRID)"
    by (simp add: equal_ignoring_case_def)
  then have "map ascii_upper s = map ascii_upper HYBRID"
    by (simp add: ascii_upper_lower comp_def)
  then show "map ascii_upper s = HYBRID"
    by (simp only: ascii_upper_HYBRID)
qed

text \<open>On ASCII code points and the dotless i, \<open>py_upper\<close> does not read the table.\<close>

lemma py_upper_plain:
  assumes "\<forall>c \<in> set t. c < 128 \<or> c = 305"
  shows "py_upper table t = map ascii_upper (map dotless_to_i t)"
  using assms
  by (induction t)
     (auto simp add: py_upper_def upper_code_point_def dotless_to_i_def ascii_upper_def)

text \<open>Any other code point puts its line of the table into the result.\<close>

lemma py_upper_foreign:
  assumes "c \<in> set t" and "128 \<le> c" and "c \<noteq> 305"
    and "\<not> set (table c) \<subseteq> set HYBRID"
  shows "py_upper table t \<noteq> HYBRID"
proof
  assume eq: "py_upper table t = HYBRID"
  have "set (table c) \<subseteq> set (py_upper table t)"
    using assms(1,2,3) by (auto simp add: py_upper_def upper_code_point_def)
  with eq assms(4) show False by simp
qed

lemma foreign_not_equal:
  assumes "c \<in> set t" and "128 \<le> c" and "c \<noteq> 305"
  shows "\<not> equal_ignoring_case (map dotless_to_i t) HYBRID"
proof
  assume "equal_ignoring_case (map dotless_to_i t) HYBRID"
  then have "set (map ascii_lower (map dotless_to_i t)) = set (map ascii_lower HYBRID)"
    by (simp add: equal_ignoring_case_def)
  moreover have "ascii_lower (dotless_to_i c) \<in> set (map ascii_lower (map dotless_to_i t))"
    using assms(1) by simp
  moreover have "ascii_lower (dotless_to_i c) = c"
    using assms(2,3) by (simp add: ascii_lower_def dotless_to_i_def)
  ultimately have "c \<in> set (map ascii_lower HYBRID)" by simp
  then show False
    using assms(2) by (auto simp add: HYBRID_def ascii_lower_def)
qed

lemma upper_eq_HYBRID_iff:
  assumes "\<forall>c. 128 \<le> c \<and> c \<noteq> 305 \<longrightarrow> \<not> set (table c) \<subseteq> set HYBRID"
  shows "py_upper table t = HYBRID \<longleftrightarrow> equal_ignoring_case (map dotless_to_i t) HYBRID"
proof (cases "\<forall>c \<in> set t. c < 128 \<or> c = 305")
  case True
  then show ?thesis
    by (simp only: py_upper_plain [OF True] ascii_upper_eq_HYBRID_iff)
next
  case False
  then obtain c where c: "c \<in> set t" "128 \<le> c" "c \<noteq> 305"
    by (auto simp add: not_less)
  from assms c have "\<not> set (table c) \<subseteq> set HYBRID" by blast
  then have "py_upper table t \<noteq> HYBRID"
    using c by (intro py_upper_foreign)
  moreover have "\<not> equal_ignoring_case (map dotless_to_i t) HYBRID"
    using c by (rule foreign_not_equal)
  ultimately show ?thesis by simp
qed

section \<open>Facts about \<open>execute\<close>\<close>

lemma search_and_parse_self_after:
  "self_after (search_and_parse env self details cs qt qv) = self"
  by (simp add: search_and_parse_def Let_def split: sum.split option.split)

lemma search_and_parse_calls:
  "priv_index self = Some idx \<Longrightarrow>
   calls (search_and_parse env self details cs qt qv) =
     cs @ [Call_similarity_search idx
              \<lparr>sr_columns = columns self, sr_query_text = qt, sr_query_vector = qv,
               sr_filters = filters self, sr_num_results = num_results self,
               sr_query_type = query_type self\<rparr>]"
  by (simp add: search_and_parse_def Let_def split: sum.split)

lemma search_and_parse_result:
  assumes "priv_index self = Some idx"
    and "similarity_search env idx
           \<lparr>sr_columns = columns self, sr_query_text = qt, sr_query_vector = qv,
            sr_filters = filters self, sr_num_results = num_results self,
            sr_query_type = query_type self\<rparr> = Inr resp"
    and "parse_vector_search_response env resp details (text_column self) = Inr pairs"
  shows "result (search_and_parse env self details cs qt qv) = Inr (map fst pairs)"
  using assms by (simp add: search_and_parse_def Let_def)

lemma hybrid_flag_iff:
  assumes "\<forall>c. 128 \<le> c \<and> c \<noteq> 305 \<longrightarrow> \<not> set (table c) \<subseteq> set HYBRID"
  shows "(str_truthy qt \<and> py_upper table (the qt) = HYBRID) \<longleftrightarrow>
         (case qt of None \<Rightarrow> False | Some t \<Rightarrow> equal_ignoring_case (map dotless_to_i t) HYBRID)"
proof (cases qt)
  case None
  then show ?thesis by simp
next
  case (Some t)
  show ?thesis
  proof (cases "t = []")
    case True
    then show ?thesis
      using Some by (simp add: equal_ignoring_case_def HYBRID_def)
  next
    case False
    then show ?thesis
      using Some by (simp add: upper_eq_HYBRID_iff [OF assms])
  qed
qed

lemma execute_self_managed:
  assumes "priv_index_details self = Some details"
    and "\<not> is_databricks_managed_embeddings details"
    and "(case c of Some cl \<Rightarrow> Inr cl | None \<Rightarrow> new_OpenAI env) = Inr oai"
    and "str_truthy (api_key oai)"
    and "embeddings_create oai q (embedding_model_name self) = Inr (v # rest)"
  shows "execute env self q c =
     (let cs = (case c of Some cl \<Rightarrow> [] | None \<Rightarrow> [Call_OpenAI]) @
               [Call_embeddings_create q (embedding_model_name self)];
          expected = dict_get (embedding_vector_column details) ''embedding_dimension''
      in if py_truthy expected \<and> PInt (int (length v)) \<noteq> expected
         then \<lparr>calls = cs,
               result = Inl (ValueError (''Expected embedding dimension '' @ py_str expected @
                          '' but got '' @ str_int (int (length v)))),
               self_after = self\<rparr>
         else search_and_parse env self details cs
                (if str_truthy (query_type self) \<and> py_upper (unicode_upper env) (the (query_type self)) = HYBRID
                 then Some q else None)
                (Some v))"
  using assms by (cases c) (simp_all add: execute_def Let_def)

lemma execute_reaches_search:
  fixes self :: "('idx, 'tp, 'res) VectorSearchRetrieverTool"
  assumes "priv_index_details self = Some details"
  shows "(\<exists>cs qt qv. execute env self q c = search_and_parse env self details cs qt qv \<and>
            (\<forall>i r. Call_similarity_search i r \<notin> set cs)) \<or>
         (\<forall>i r. Call_similarity_search i r \<notin> set (calls (execute env self q c)))"
proof (cases "is_databricks_managed_embeddings details")
  case True
  then have "execute env self q c = search_and_parse env self details [] (Some q) None"
    using assms by (simp add: execute_def)
  then have "\<exists>cs qt qv. execute env self q c = search_and_parse env self details cs qt qv \<and>
               (\<forall>i r. Call_similarity_search i r \<notin> set cs)"
    by (intro exI [of _ "[]"] exI [of _ "Some q"] exI [of _ None]) simp
  then show ?thesis ..
next
  case False
  show ?thesis
  proof (cases "case c of Some cl \<Rightarrow> Inr cl | None \<Rightarrow> new_OpenAI env")
    case (Inl e)
    then have "calls (execute env self q c) = (case c of Some cl \<Rightarrow> [] | None \<Rightarrow> [Call_OpenAI])"
      using assms False by (cases c) (simp_all add: execute_def)
    then show ?thesis by (cases c) simp_all
  next
    case (Inr oai)
    show ?thesis
    proof (cases "str_truthy (api_key oai)")
      case nokey: False
      then have "calls (execute env self q c) =
                   (case c of Some cl \<Rightarrow> [] | None \<Rightarrow> [Call_OpenAI])"
        using assms False Inr by (cases c) (simp_all add: execute_def)
      then show ?thesis by (cases c) simp_all
    next
      case key: True
      show ?thesis
      proof (cases "embeddings_create oai q (embedding_model_name self)")
        case (Inl e)
        then have "calls (execute env self q c) =
                     (case c of Some cl \<Rightarrow> [] | None \<Rightarrow> [Call_OpenAI]) @
                     [Call_embeddings_create q (embedding_model_name self)]"
          using assms False Inr key by (cases c) (simp_all add: execute_def Let_def)
        then show ?thesis by (cases c) simp_all
      next
        case data: (Inr vs)
        show ?thesis
        proof (cases vs)
          case Nil
          then have "calls (execute env self q c) =
                       (case c of Some cl \<Rightarrow> [] | None \<Rightarrow> [Call_OpenAI]) @
                       [Call_embeddings_create q (embedding_model_name self)]"
            using assms False Inr key data by (cases c) (simp_all add: execute_def Let_def)
          then show ?thesis by (cases c) simp_all
        next
          case (Cons v rest)
          with data have emb: "embeddings_create oai q (embedding_model_name self) = Inr (v # rest)"
            by simp
          note ex = execute_self_managed [OF assms False Inr key emb]
          define cs :: "'idx call list" where "cs = (case c of Some cl \<Rightarrow> [] | None \<Rightarrow> [Call_OpenAI]) @
                                [Call_embeddings_create q (embedding_model_name self)]"
          have cs: "\<forall>i r. Call_similarity_search i r \<notin> set cs"
            by (cases c) (simp_all add: cs_def)
          define expected where
            "expected = dict_get (embedding_vector_column details) ''embedding_dimension''"
          show ?thesis
          proof (cases "py_truthy expected \<and> PInt (int (length v)) \<noteq> expected")
            case True
            then have "calls (execute env self q c) = cs"
              unfolding ex Let_def by (simp add: cs_def expected_def)
            with cs show ?thesis by simp
          next
            case False
            then have cond: "(py_truthy (dict_get (embedding_vector_column details)
                                 ''embedding_dimension'') \<and>
                 PInt (int (length v)) \<noteq> dict_get (embedding_vector_column details)
                                 ''embedding_dimension'') = False"
              by (simp add: expected_def)
            have "execute env self q c =
                search_and_parse env self details cs
                  (if str_truthy (query_type self) \<and> py_upper (unicode_upper env) (the (query_type self)) = HYBRID
                   then Some q else None)
                  (Some v)"
              unfolding ex Let_def cond by (simp add: cs_def)
            with cs have "\<exists>cs qt qv.
                execute env self q c = search_and_parse env self details cs qt qv \<and>
                (\<forall>i r. Call_similarity_search i r \<notin> set cs)"
              by blast
            then show ?thesis ..
          qed
        qed
      qed
    qed
  qed
qed

lemma length_py_split: "length (py_split sep s) = Suc (count_list s sep)"
  by (induction s) (auto split: list.splits)

lemma str_int_768: "str_int 768 = ''768''"
  by code_simp

lemma str_int_512: "str_int 512 = ''512''"
  by code_simp

lemma hybrid_lower_case:
  "equal_ignoring_case (map dotless_to_i (code_points_of ''hybrid'')) HYBRID"
  by code_simp

lemma ann_is_not_hybrid:
  "\<not> equal_ignoring_case (map dotless_to_i (code_points_of ''ANN'')) HYBRID"
  by code_simp

lemma dotless_is_not_hybrid: "\<not> equal_ignoring_case [104, 121, 98, 114, 305, 100] HYBRID"
  by code_simp

lemma dotless_upper: "py_upper table [104, 121, 98, 114, 305, 100] = HYBRID"
  by (simp add: py_upper_def upper_code_point_def ascii_upper_def HYBRID_def)

lemma example_table:
  "\<forall>c. 128 \<le> c \<and> c \<noteq> 305 \<longrightarrow>
       \<not> set (unicode_upper (example_env details) c) \<subseteq> set HYBRID"
  by (auto simp add: example_env_def HYBRID_def)

lemma managed_calls_example:
  "calls (execute (example_env example_managed) (example_validated example_managed) ''foo'' None) =
     [Call_similarity_search 7
        \<lparr>sr_columns = Some [], sr_query_text = Some ''foo'', sr_query_vector = None,
         sr_filters = None, sr_num_results = 5, sr_query_type = Some (code_points_of ''ANN'')\<rparr>]"
  by (simp add: execute_def search_and_parse_calls example_validated_def example_tool_def
      example_managed_def)

section \<open>Facts about the validator\<close>

lemma get_tool_name_cong:
  "tool_name s' = tool_name s \<Longrightarrow> index_name s' = index_name s \<Longrightarrow>
   get_tool_name s' = get_tool_name s"
  by (simp add: get_tool_name_def)

lemma validate_after_checks:
  assumes "passes_checks env self idx details tc cols t"
  shows "validate_tool_inputs env self =
     ([Call_VectorSearchClient, Call_get_index (index_name self), Call_IndexDetails idx] @
        fst (get_tool_name self) @ fst (set_resources env (checked self idx details tc cols t)),
      snd (set_resources env (checked self idx details tc cols t)))"
proof -
  have g: "get_tool_name (self\<lparr>priv_index := Some idx, priv_index_details := Some details,
              text_column := Some tc, columns := Some cols\<rparr>) = get_tool_name self"
    by (rule get_tool_name_cong) simp_all
  obtain w n where wn: "get_tool_name self = (w, n)" by (cases "get_tool_name self")
  define descr where "descr = (if str_truthy (tool_description self) then the (tool_description self)
         else get_default_tool_description env details)"
  from assms have seg: "length (py_split (CHR ''.'') (index_name self)) = 3"
    and vsc: "new_VectorSearchClient env = Inr ()"
    and gi: "get_index env (index_name self) = Inr idx"
    and det: "new_IndexDetails env idx = Inr details"
    and tcl: "validate_and_get_text_column env (text_column self) details = Inr tc"
    and col: "validate_and_get_return_columns env
        (case columns self of None \<Rightarrow> [] | Some c \<Rightarrow> c) tc details = Inr cols"
    and emb: "(\<not> is_databricks_managed_embeddings details \<and>
               \<not> str_truthy (embedding_model_name self)) = False"
    and pft: "pydantic_function_tool env n descr = Inr t"
    by (auto simp add: passes_checks_def wn descr_def)
  obtain cs' r where sr: "set_resources env (self\<lparr>priv_index := Some idx,
      priv_index_details := Some details, text_column := Some tc, columns := Some cols,
      tool := Some t\<rparr>) = (cs', r)"
    by (cases "set_resources env (self\<lparr>priv_index := Some idx,
      priv_index_details := Some details, text_column := Some tc, columns := Some cols,
      tool := Some t\<rparr>)")
  have d4: "(if str_truthy (tool_description self)
             then the (tool_description (self\<lparr>priv_index := Some idx,
                    priv_index_details := Some details, text_column := Some tc,
                    columns := Some cols\<rparr>))
             else get_default_tool_description env details) = descr"
    by (simp add: descr_def)
  show ?thesis
    unfolding validate_tool_inputs_def Let_def
    by (simp add: seg vsc gi det tcl col emb g wn d4 pft sr checked_def
        split del: if_split)
qed

lemma py_replace_dots: "py_replace (CHR ''.'') ''__'' s = dots_to_double_underscores s"
  by (induction s) (simp_all add: py_replace_def)

lemma checked_fields:
  "index_name (checked self idx details tc cols t) = index_name self"
  "embedding_model_name (checked self idx details tc cols t) = embedding_model_name self"
  "tool (checked self idx details tc cols t) = Some t"
  by (simp_all add: checked_def)

lemma set_resources_imports_fail:
  assumes "import_WorkspaceClient env = Inl e \<or> import_ResourceDoesNotExist env = Inl e"
  shows "set_resources env s = ([], Inl (UnboundLocalError ''ResourceDoesNotExist''))"
  using assms by (auto simp add: set_resources_def split: sum.split)

lemma set_resources_client_fails:
  assumes "import_WorkspaceClient env = Inr ()" "import_ResourceDoesNotExist env = Inr ()"
    and "new_WorkspaceClient env = Inl e"
  shows "set_resources env s = on_lookup_error env s [Call_WorkspaceClient] e"
  using assms by (simp add: set_resources_def)

lemma set_resources_lookup_fails:
  assumes "import_WorkspaceClient env = Inr ()" "import_ResourceDoesNotExist env = Inr ()"
    and "new_WorkspaceClient env = Inr ()"
    and "serving_endpoints_get env (embedding_model_name s) = Inl e"
  shows "set_resources env s =
           on_lookup_error env s
             [Call_WorkspaceClient, Call_serving_endpoints_get (embedding_model_name s)] e"
  using assms by (simp add: set_resources_def)

lemma set_resources_found:
  assumes "import_WorkspaceClient env = Inr ()" "import_ResourceDoesNotExist env = Inr ()"
    and "new_WorkspaceClient env = Inr ()"
    and "serving_endpoints_get env (embedding_model_name s) = Inr ()"
  shows "set_resources env s =
           ([Call_WorkspaceClient, Call_serving_endpoints_get (embedding_model_name s)],
            Inr (s\<lparr>resources :=
                   Some (get_resources env (index_name s) (embedding_model_name s))\<rparr>))"
  using assms by (simp add: set_resources_def)

lemma set_resources_keeps_tool:
  assumes "snd (set_resources env s) = Inr s'"
  shows "tool s' = tool s"
  using assms
  by (auto simp add: set_resources_def on_lookup_error_def split: sum.splits if_splits)

lemma passes_checks_later_steps:
  "passes_checks (env\<lparr>import_WorkspaceClient := a\<rparr>) self idx details tc cols t =
     passes_checks env self idx details tc cols t"
  "passes_checks (env\<lparr>new_WorkspaceClient := b\<rparr>) self idx details tc cols t =
     passes_checks env self idx details tc cols t"
  "passes_checks (env\<lparr>serving_endpoints_get := f\<rparr>) self idx details tc cols t =
     passes_checks env self idx details tc cols t"
  by (simp_all add: passes_checks_def)

lemma example_index_segments:
  "length (py_split (CHR ''.'') ''catalog.schema.my_index_name'') = 3"
  by code_simp

lemma example_derived_name:
  "dots_to_double_underscores ''catalog.schema.my_index_name'' = ''catalog__schema__my_index_name''"
  by code_simp

lemma example_get_tool_name:
  "get_tool_name (example_tool :: (nat, string \<times> string, string) VectorSearchRetrieverTool) =
     ([], ''catalog__schema__my_index_name'')"
  by (simp add: get_tool_name_def example_tool_def py_replace_dots example_derived_name
      del: dots_to_double_underscores.simps)

lemma example_long_get_tool_name:
  "snd (get_tool_name example_long_name) = replicate 64 (CHR ''b'')"
  by (simp add: get_tool_name_def example_long_name_def example_tool_def py_last_chars_def)

lemma example_passes_checks:
  "passes_checks (example_env example_managed) example_tool 7 example_managed ''text'' []
     (''catalog__schema__my_index_name'', ''A vector search-based retrieval tool'')"
  by (simp add: passes_checks_def example_get_tool_name)
     (simp add: example_env_def example_tool_def example_managed_def example_index_segments)

lemma example_long_passes_checks:
  "passes_checks (example_env example_managed) example_long_name 7 example_managed ''text'' []
     (replicate 64 (CHR ''b''), ''A vector search-based retrieval tool'')"
  by (simp add: passes_checks_def example_long_get_tool_name)
     (simp add: example_env_def example_long_name_def example_tool_def example_managed_def
        example_index_segments)

lemma example_set_resources:
  "set_resources (example_env example_managed) s =
     (if embedding_model_name s = Some ''embedder''
      then ([Call_WorkspaceClient, Call_serving_endpoints_get (embedding_model_name s)],
            Inr (s\<lparr>resources := Some [index_name s, ''embedder'']\<rparr>))
      else ([Call_WorkspaceClient, Call_serving_endpoints_get (embedding_model_name s)],
            Inr (s\<lparr>resources := Some [index_name s]\<rparr>)))"
  by (simp add: set_resources_def on_lookup_error_def example_env_def)

section \<open>The claims about \<open>execute\<close>\<close>

text \<open>
  Claim C1. On an index with Databricks-managed embeddings, \<open>execute(q)\<close> makes exactly
  one external call: the similarity search, with \<open>query_text\<close> the query \<open>q\<close> unchanged
  and \<open>query_vector\<close> \<open>None\<close>. No OpenAI client is built and no embedding is requested.
\<close>

theorem managed_passes_query_text:
  assumes "priv_index_details self = Some details"
    and "is_databricks_managed_embeddings details"
    and "priv_index self = Some idx"
  shows "calls (execute env self q c) =
           [Call_similarity_search idx
              \<lparr>sr_columns = columns self, sr_query_text = Some q, sr_query_vector = None,
               sr_filters = filters self, sr_num_results = num_results self,
               sr_query_type = query_type self\<rparr>]"
  using assms by (simp add: execute_def search_and_parse_calls)

theorem managed_passes_query_text_witness:
  "priv_index_details (example_validated example_managed) = Some example_managed \<and>
   is_databricks_managed_embeddings example_managed \<and>
   priv_index (example_validated example_managed) = Some 7 \<and>
   calls (execute (example_env example_managed) (example_validated example_managed) ''foo'' None) =
     [Call_similarity_search 7
        \<lparr>sr_columns = Some [], sr_query_text = Some ''foo'', sr_query_vector = None,
         sr_filters = None, sr_num_results = 5, sr_query_type = Some (code_points_of ''ANN'')\<rparr>]"
  using managed_passes_query_text
    [where self = "example_validated example_managed" and details = example_managed
       and idx = 7 and env = "example_env example_managed" and q = "''foo''" and c = None]
  by (simp add: example_validated_def example_tool_def example_managed_def)

text \<open>
  Claim C2, as stated, fails. With the query type \<open>hybr\<close>, dotless i, \<open>d\<close>, which is
  not equal to \<open>HYBRID\<close> case-insensitively, \<open>execute\<close> still sends the query text with
  the vector: Python's \<open>upper()\<close> turns the dotless i into \<open>I\<close>.
\<close>

theorem dotless_query_type_sends_text:
  "\<not> equal_ignoring_case [104, 121, 98, 114, 305, 100] HYBRID \<and>
   calls (execute (example_env example_self_managed)
            ((example_validated example_self_managed)
               \<lparr>query_type := Some [104, 121, 98, 114, 305, 100],
                embedding_model_name := Some ''embedder''\<rparr>)
            ''foo'' (Some (example_client 768))) =
     [Call_embeddings_create ''foo'' (Some ''embedder''),
      Call_similarity_search 7
        \<lparr>sr_columns = Some [], sr_query_text = Some ''foo'',
         sr_query_vector = Some (replicate 768 0),
         sr_filters = None, sr_num_results = 5,
         sr_query_type = Some [104, 121, 98, 114, 305, 100]\<rparr>]"
proof -
  let ?self = "(example_validated example_self_managed)
                 \<lparr>query_type := Some [104, 121, 98, 114, 305, 100],
                  embedding_model_name := Some ''embedder''\<rparr>"
  have d: "priv_index_details ?self = Some example_self_managed"
    and i: "priv_index ?self = Some 7"
    by (simp_all add: example_validated_def)
  have m: "\<not> is_databricks_managed_embeddings example_self_managed"
    by (simp add: example_self_managed_def)
  have c: "(case Some (example_client 768) of Some cl \<Rightarrow> Inr cl
            | None \<Rightarrow> new_OpenAI (example_env example_self_managed)) = Inr (example_client 768)"
    by simp
  have k: "str_truthy (api_key (example_client 768))"
    by (simp add: example_client_def)
  have e: "embeddings_create (example_client 768) ''foo'' (embedding_model_name ?self) =
             Inr (replicate 768 0 # [])"
    by (simp add: example_client_def)
  have calls: "calls (execute (example_env example_self_managed) ?self ''foo''
                        (Some (example_client 768))) =
     [Call_embeddings_create ''foo'' (Some ''embedder''),
      Call_similarity_search 7
        \<lparr>sr_columns = Some [], sr_query_text = Some ''foo'',
         sr_query_vector = Some (replicate 768 0),
         sr_filters = None, sr_num_results = 5,
         sr_query_type = Some [104, 121, 98, 114, 305, 100]\<rparr>]"
    unfolding execute_self_managed [OF d m c k e] Let_def
    by (simp add: search_and_parse_calls [OF i] dotless_upper)
       (simp add: example_validated_def example_tool_def example_self_managed_def dict_get_def)
  from dotless_is_not_hybrid calls show ?thesis by (rule conjI)
qed

text \<open>
  Claim C2, amended. On an index with self-managed embeddings, once a client with an
  API key is at hand, the embedding service answers and the dimension check passes,
  \<open>execute(q)\<close> requests an embedding of \<open>q\<close> with the configured model and then
  searches with that vector; the search carries \<open>query_text = q\<close> when the query type,
  with \<open>i\<close> put for every dotless i, equals \<open>HYBRID\<close> case-insensitively, and
  \<open>query_text = None\<close> otherwise, also when the query type is unset. The one fact used
  of Unicode's case table is that no code point from 128 on, the dotless i apart, has
  an upper case made of letters of \<open>HYBRID\<close> only.
\<close>

theorem self_managed_embeds_query:
  assumes "priv_index_details self = Some details"
    and "\<not> is_databricks_managed_embeddings details"
    and "priv_index self = Some idx"
    and "(case c of Some cl \<Rightarrow> Inr cl | None \<Rightarrow> new_OpenAI env) = Inr oai"
    and "str_truthy (api_key oai)"
    and "embeddings_create oai q (embedding_model_name self) = Inr (v # rest)"
    and "dict_get (embedding_vector_column details) ''embedding_dimension'' = expected"
    and "\<not> py_truthy expected \<or> expected = PInt (int (length v))"
    and "\<forall>c. 128 \<le> c \<and> c \<noteq> 305 \<longrightarrow> \<not> set (unicode_upper env c) \<subseteq> set HYBRID"
  shows "calls (execute env self q c) =
     (case c of Some cl \<Rightarrow> [] | None \<Rightarrow> [Call_OpenAI]) @
     [Call_embeddings_create q (embedding_model_name self),
      Call_similarity_search idx
        \<lparr>sr_columns = columns self,
         sr_query_text = (case query_type self of
                            None \<Rightarrow> None
                          | Some t \<Rightarrow> if equal_ignoring_case (map dotless_to_i t) HYBRID
                                     then Some q else None),
         sr_query_vector = Some v,
         sr_filters = filters self, sr_num_results = num_results self,
         sr_query_type = query_type self\<rparr>]"
proof -
  have flag: "(if str_truthy (query_type self) \<and>
                  py_upper (unicode_upper env) (the (query_type self)) = HYBRID
               then Some q else None) =
              (case query_type self of
                 None \<Rightarrow> None
               | Some t \<Rightarrow> if equal_ignoring_case (map dotless_to_i t) HYBRID
                          then Some q else None)"
    using hybrid_flag_iff [OF assms(9), of "query_type self"]
    by (cases "query_type self") simp_all
  have ok: "\<not> (py_truthy expected \<and> PInt (int (length v)) \<noteq> expected)"
    using assms(8) by auto
  show ?thesis
    unfolding execute_self_managed [OF assms(1,2,4,5,6)] Let_def assms(7)
    using ok by (simp add: search_and_parse_calls [OF assms(3)] flag)
qed

theorem self_managed_embeds_query_witness:
  "calls (execute (example_env example_self_managed)
            ((example_validated example_self_managed)
               \<lparr>query_type := Some (code_points_of ''hybrid''),
                embedding_model_name := Some ''embedder''\<rparr>)
            ''foo'' (Some (example_client 768))) =
     [Call_embeddings_create ''foo'' (Some ''embedder''),
      Call_similarity_search 7
        \<lparr>sr_columns = Some [], sr_query_text = Some ''foo'',
         sr_query_vector = Some (replicate 768 0),
         sr_filters = None, sr_num_results = 5,
         sr_query_type = Some (code_points_of ''hybrid'')\<rparr>] \<and>
   calls (execute (example_env example_self_managed)
            ((example_validated example_self_managed)\<lparr>embedding_model_name := Some ''embedder''\<rparr>)
            ''foo'' (Some (example_client 768))) =
     [Call_embeddings_create ''foo'' (Some ''embedder''),
      Call_similarity_search 7
        \<lparr>sr_columns = Some [], sr_query_text = None,
         sr_query_vector = Some (replicate 768 0),
         sr_filters = None, sr_num_results = 5,
         sr_query_type = Some (code_points_of ''ANN'')\<rparr>]"
proof -
  have hybrid: "calls (execute (example_env example_self_managed)
            ((example_validated example_self_managed)
               \<lparr>query_type := Some (code_points_of ''hybrid''),
                embedding_model_name := Some ''embedder''\<rparr>)
            ''foo'' (Some (example_client 768))) =
     [Call_embeddings_create ''foo'' (Some ''embedder''),
      Call_similarity_search 7
        \<lparr>sr_columns = Some [], sr_query_text = Some ''foo'',
         sr_query_vector = Some (replicate 768 0),
         sr_filters = None, sr_num_results = 5,
         sr_query_type = Some (code_points_of ''hybrid'')\<rparr>]"
    using self_managed_embeds_query
      [where self = "(example_validated example_self_managed)
                 \<lparr>query_type := Some (code_points_of ''hybrid''),
                  embedding_model_name := Some ''embedder''\<rparr>"
         and details = example_self_managed and idx = 7
         and env = "example_env example_self_managed" and q = "''foo''"
         and c = "Some (example_client 768)" and oai = "example_client 768"
         and v = "replicate 768 0" and rest = "[]" and expected = "PInt 768",
       OF _ _ _ _ _ _ _ _ example_table]
    by (simp add: example_validated_def example_tool_def example_self_managed_def
        example_client_def dict_get_def hybrid_lower_case)
  have ann: "calls (execute (example_env example_self_managed)
            ((example_validated example_self_managed)\<lparr>embedding_model_name := Some ''embedder''\<rparr>)
            ''foo'' (Some (example_client 768))) =
     [Call_embeddings_create ''foo'' (Some ''embedder''),
      Call_similarity_search 7
        \<lparr>sr_columns = Some [], sr_query_text = None,
         sr_query_vector = Some (replicate 768 0),
         sr_filters = None, sr_num_results = 5,
         sr_query_type = Some (code_points_of ''ANN'')\<rparr>]"
    using self_managed_embeds_query
      [where self = "(example_validated example_self_managed)
                       \<lparr>embedding_model_name := Some ''embedder''\<rparr>"
         and details = example_self_managed and idx = 7
         and env = "example_env example_self_managed" and q = "''foo''"
         and c = "Some (example_client 768)" and oai = "example_client 768"
         and v = "replicate 768 0" and rest = "[]" and expected = "PInt 768",
       OF _ _ _ _ _ _ _ _ example_table]
    by (simp add: example_validated_def example_tool_def example_self_managed_def
        example_client_def dict_get_def ann_is_not_hybrid)
  from hybrid ann show ?thesis by (rule conjI)
qed

text \<open>
  Claim C3. On an index with self-managed embeddings whose metadata declares the
  embedding dimension \<open>d\<close> (an integer other than 0, which Python takes for an absent
  dimension), a computed vector of another length \<open>n\<close> makes \<open>execute\<close> raise
  \<open>ValueError\<close> with the message \<open>Expected embedding dimension d but got n\<close>, and the
  calls made end with the embedding request: no search is submitted.
\<close>

theorem dimension_mismatch_raises:
  assumes "priv_index_details self = Some details"
    and "\<not> is_databricks_managed_embeddings details"
    and "(case c of Some cl \<Rightarrow> Inr cl | None \<Rightarrow> new_OpenAI env) = Inr oai"
    and "str_truthy (api_key oai)"
    and "embeddings_create oai q (embedding_model_name self) = Inr (v # rest)"
    and "dict_get (embedding_vector_column details) ''embedding_dimension'' = PInt d"
    and "d \<noteq> 0"
    and "int (length v) \<noteq> d"
  shows "result (execute env self q c) =
           Inl (ValueError (''Expected embedding dimension '' @ str_int d @
                  '' but got '' @ str_int (int (length v)))) \<and>
         calls (execute env self q c) =
           (case c of Some cl \<Rightarrow> [] | None \<Rightarrow> [Call_OpenAI]) @
           [Call_embeddings_create q (embedding_model_name self)]"
  unfolding execute_self_managed [OF assms(1,2,3,4,5)] Let_def assms(6)
  using assms(7,8) by simp

theorem dimension_mismatch_raises_witness:
  "result (execute (example_env example_self_managed)
             ((example_validated example_self_managed)\<lparr>embedding_model_name := Some ''embedder''\<rparr>)
             ''foo'' (Some (example_client 512))) =
     Inl (ValueError ''Expected embedding dimension 768 but got 512'') \<and>
   calls (execute (example_env example_self_managed)
            ((example_validated example_self_managed)\<lparr>embedding_model_name := Some ''embedder''\<rparr>)
            ''foo'' (Some (example_client 512))) =
     [Call_embeddings_create ''foo'' (Some ''embedder'')]"
  using dimension_mismatch_raises
    [where self = "(example_validated example_self_managed)
                     \<lparr>embedding_model_name := Some ''embedder''\<rparr>"
       and details = example_self_managed
       and env = "example_env example_self_managed" and q = "''foo''"
       and c = "Some (example_client 512)" and oai = "example_client 512"
       and v = "replicate 512 0" and rest = "[]" and d = 768]
  by (simp add: example_validated_def example_tool_def example_self_managed_def
      example_client_def dict_get_def str_int_768 str_int_512)

text \<open>
  Claim C4. Whenever \<open>execute\<close> has submitted a search and the response parses into a
  list of (document, score) pairs, \<open>execute\<close> returns the documents of that list, in
  the same order, without the scores.
\<close>

theorem execute_returns_documents:
  assumes "priv_index_details self = Some details"
    and "priv_index self = Some idx"
    and "Call_similarity_search idx req \<in> set (calls (execute env self q c))"
    and "similarity_search env idx req = Inr resp"
    and "parse_vector_search_response env resp details (text_column self) = Inr pairs"
  shows "result (execute env self q c) = Inr (map fst pairs)"
proof -
  from execute_reaches_search [OF assms(1), of env q c] assms(3)
  obtain cs qt qv where ex: "execute env self q c = search_and_parse env self details cs qt qv"
    and cs: "\<forall>i r. Call_similarity_search i r \<notin> set cs"
    by blast
  from assms(3) cs have "req = \<lparr>sr_columns = columns self, sr_query_text = qt,
      sr_query_vector = qv, sr_filters = filters self, sr_num_results = num_results self,
      sr_query_type = query_type self\<rparr>"
    by (auto simp add: ex search_and_parse_calls [OF assms(2)])
  with assms(4) show ?thesis
    unfolding ex using search_and_parse_result [OF assms(2) _ assms(5)] by simp
qed

theorem execute_returns_documents_witness:
  "result (execute (example_env example_managed) (example_validated example_managed) ''foo'' None) =
     Inr [[(''id'', PInt 1), (''text'', PStr ''a'')], [(''id'', PInt 2), (''text'', PStr ''b'')]]"
  using execute_returns_documents
    [where self = "example_validated example_managed" and details = example_managed
       and idx = 7 and env = "example_env example_managed" and q = "''foo''" and c = None
       and req = "\<lparr>sr_columns = Some [], sr_query_text = Some ''foo'', sr_query_vector = None,
                    sr_filters = None, sr_num_results = 5, sr_query_type = Some (code_points_of ''ANN'')\<rparr>"
       and resp = "[([(''id'', PInt 1), (''text'', PStr ''a'')], 0.9),
                    ([(''id'', PInt 2), (''text'', PStr ''b'')], 0.5)]"
       and pairs = "[([(''id'', PInt 1), (''text'', PStr ''a'')], 0.9),
                     ([(''id'', PInt 2), (''text'', PStr ''b'')], 0.5)]"]
    managed_calls_example
  by (simp add: example_validated_def example_tool_def example_managed_def example_env_def)

text \<open>
  Claim C9. \<open>execute\<close> assigns to no field of the object: whatever the query, the
  client and the answers of the external services, and whether it returns or raises,
  the object after the call is the object before it.
\<close>

theorem execute_frame: "self_after (execute env self q c) = self"
  by (simp add: execute_def search_and_parse_self_after Let_def
      split: sum.split option.split list.split prod.split)

theorem execute_frame_witness:
  "self_after (execute (example_env example_self_managed)
                 ((example_validated example_self_managed)
                    \<lparr>embedding_model_name := Some ''embedder''\<rparr>)
                 ''foo'' (Some (example_client 768))) =
     (example_validated example_self_managed)\<lparr>embedding_model_name := Some ''embedder''\<rparr>"
  using execute_frame
    [where self = "(example_validated example_self_managed)
                     \<lparr>embedding_model_name := Some ''embedder''\<rparr>"
       and env = "example_env example_self_managed" and q = "''foo''"
       and c = "Some (example_client 768)"]
  by simp

section \<open>The claims about the validator\<close>

text \<open>
  Claim C6. An index name that does not split at its dots into exactly three segments
  makes the validator raise \<open>ValueError\<close> before it has called anything: no client is
  built and no index is looked up. By \<open>length_py_split\<close> the segments are one more than
  the dots, so these are the names without exactly two dots.
\<close>

theorem index_name_shape_checked_first:
  assumes "length (py_split (CHR ''.'') (index_name self)) \<noteq> 3"
  shows "validate_tool_inputs env self =
    ([], Inl (ValueError (''Index name '' @ index_name self @
                       '' is not in the expected format 'catalog.schema.index'.'')))"
  using assms by (simp add: validate_tool_inputs_def)

theorem index_name_shape_checked_first_witness:
  "length (py_split (CHR ''.'') ''catalog.my_index'') \<noteq> 3 \<and>
   validate_tool_inputs (example_env example_managed)
     (example_tool\<lparr>index_name := ''catalog.my_index''\<rparr>) =
     ([], Inl (ValueError
        ''Index name catalog.my_index is not in the expected format 'catalog.schema.index'.''))"
  using index_name_shape_checked_first
    [where self = "example_tool\<lparr>index_name := ''catalog.my_index''\<rparr>"
       and env = "example_env example_managed"]
  by (simp add: example_tool_def)

text \<open>
  Claim C5. The tool name before truncation is the override when one is given (a
  non-empty string: Python's \<open>or\<close> takes an empty override for an absent one), and
  otherwise the index name with each dot replaced by two underscores. A name of at most
  64 characters is returned as it is, with no log record. A longer name is cut to its
  last 64 characters and one warning is logged. When the validator succeeds, the tool
  it stores is what the tool builder made of that returned name, and the warning is
  among the validator's effects.
\<close>

theorem tool_name_derived_and_truncated:
  "(let n = (case tool_name self of
               None \<Rightarrow> dots_to_double_underscores (index_name self)
             | Some t \<Rightarrow> if t = [] then dots_to_double_underscores (index_name self) else t)
    in (length n \<le> 64 \<longrightarrow> get_tool_name self = ([], n)) \<and>
       (64 < length n \<longrightarrow>
          snd (get_tool_name self) = drop (length n - 64) n \<and>
          length (snd (get_tool_name self)) = 64 \<and>
          (\<exists>msg. fst (get_tool_name self) = [Log_warning msg]))) \<and>
   (\<forall>idx details tc cols t self'.
      passes_checks env self idx details tc cols t \<longrightarrow>
      snd (validate_tool_inputs env self) = Inr self' \<longrightarrow>
        pydantic_function_tool env (snd (get_tool_name self))
          (if str_truthy (tool_description self) then the (tool_description self)
           else get_default_tool_description env details) = Inr t \<and>
        tool self' = Some t \<and>
        set (fst (get_tool_name self)) \<subseteq> set (fst (validate_tool_inputs env self)))"
proof -
  have name: "(let n = (case tool_name self of
               None \<Rightarrow> dots_to_double_underscores (index_name self)
             | Some t \<Rightarrow> if t = [] then dots_to_double_underscores (index_name self) else t)
    in (length n \<le> 64 \<longrightarrow> get_tool_name self = ([], n)) \<and>
       (64 < length n \<longrightarrow>
          snd (get_tool_name self) = drop (length n - 64) n \<and>
          length (snd (get_tool_name self)) = 64 \<and>
          (\<exists>msg. fst (get_tool_name self) = [Log_warning msg])))"
    by (cases "tool_name self")
       (auto simp add: get_tool_name_def Let_def py_replace_dots py_last_chars_def)
  have stored: "pydantic_function_tool env (snd (get_tool_name self))
          (if str_truthy (tool_description self) then the (tool_description self)
           else get_default_tool_description env details) = Inr t \<and>
        tool self' = Some t \<and>
        set (fst (get_tool_name self)) \<subseteq> set (fst (validate_tool_inputs env self))"
    if pc: "passes_checks env self idx details tc cols t"
      and ok: "snd (validate_tool_inputs env self) = Inr self'"
    for idx details tc cols t self'
  proof -
    note v = validate_after_checks [OF pc]
    from ok have "snd (set_resources env (checked self idx details tc cols t)) = Inr self'"
      by (simp add: v)
    then have "tool self' = Some t"
      using set_resources_keeps_tool checked_fields(3) by metis
    moreover have "pydantic_function_tool env (snd (get_tool_name self))
          (if str_truthy (tool_description self) then the (tool_description self)
           else get_default_tool_description env details) = Inr t"
      using pc by (simp add: passes_checks_def)
    moreover have "set (fst (get_tool_name self)) \<subseteq> set (fst (validate_tool_inputs env self))"
      by (simp add: v) auto
    ultimately show ?thesis by simp
  qed
  from name stored show ?thesis by blast
qed

theorem tool_name_derived_and_truncated_witness:
  "passes_checks (example_env example_managed) example_long_name 7 example_managed ''text'' []
     (replicate 64 (CHR ''b''), ''A vector search-based retrieval tool'') \<and>
   snd (get_tool_name example_long_name) = replicate 64 (CHR ''b'') \<and>
   (\<exists>msg. fst (get_tool_name example_long_name) = [Log_warning msg]) \<and>
   (\<exists>s. snd (validate_tool_inputs (example_env example_managed) example_long_name) = Inr s \<and>
        tool s = Some (replicate 64 (CHR ''b''), ''A vector search-based retrieval tool''))"
proof -
  let ?env = "example_env example_managed"
  let ?t = "(replicate 64 (CHR ''b''), ''A vector search-based retrieval tool'')"
  note pc = example_long_passes_checks
  have "\<exists>s. snd (validate_tool_inputs ?env example_long_name) = Inr s"
    unfolding validate_after_checks [OF pc] example_set_resources by simp
  then obtain s where s: "snd (validate_tool_inputs ?env example_long_name) = Inr s" ..
  have len: "64 < length (CHR ''a'' # replicate 64 (CHR ''b''))" by simp
  note T = tool_name_derived_and_truncated [where self = example_long_name and env = ?env]
  from T pc s have "tool s = Some ?t" by blast
  moreover from T len have "\<exists>msg. fst (get_tool_name example_long_name) = [Log_warning msg]"
    by (simp add: example_long_name_def example_tool_def Let_def)
  ultimately show ?thesis
    using pc s example_long_get_tool_name by blast
qed

text \<open>
  Claim C7. When the index resolves to metadata that says self-managed embeddings and
  no embedding model name is supplied (\<open>None\<close> or the empty string), the validator
  fails; when the two column validations pass, it fails with the \<open>ValueError\<close> that asks
  for the embedding model name, after the three calls that resolve the index.
\<close>

theorem self_managed_requires_embedding_model:
  assumes "length (py_split (CHR ''.'') (index_name self)) = 3"
    and "new_VectorSearchClient env = Inr ()"
    and "get_index env (index_name self) = Inr idx"
    and "new_IndexDetails env idx = Inr details"
    and "\<not> is_databricks_managed_embeddings details"
    and "\<not> str_truthy (embedding_model_name self)"
  shows "(\<exists>e. snd (validate_tool_inputs env self) = Inl e) \<and>
         (\<forall>tc cols.
            validate_and_get_text_column env (text_column self) details = Inr tc \<longrightarrow>
            validate_and_get_return_columns env
              (case columns self of None \<Rightarrow> [] | Some c \<Rightarrow> c) tc details = Inr cols \<longrightarrow>
            validate_tool_inputs env self =
              ([Call_VectorSearchClient, Call_get_index (index_name self), Call_IndexDetails idx],
               Inl (ValueError
                 (''The embedding model name is required for non-Databricks-managed '' @
                  ''embeddings Vector Search indexes in order to generate embeddings for retrieval queries.''))))"
  using assms
  by (auto simp add: validate_tool_inputs_def Let_def split: sum.split)

theorem self_managed_requires_embedding_model_witness:
  "validate_tool_inputs (example_env example_self_managed) example_tool =
     ([Call_VectorSearchClient, Call_get_index ''catalog.schema.my_index_name'',
       Call_IndexDetails 7],
      Inl (ValueError
        (''The embedding model name is required for non-Databricks-managed '' @
         ''embeddings Vector Search indexes in order to generate embeddings for retrieval queries.'')))"
  using self_managed_requires_embedding_model
    [where self = example_tool and env = "example_env example_self_managed" and idx = 7
       and details = example_self_managed]
  by (simp add: example_env_def example_tool_def example_self_managed_def
      example_index_segments)

text \<open>
  Claim C8. Once the checks have passed and the imports and the workspace client are
  there: a lookup that raises \<open>ResourceDoesNotExist\<close> leaves the validator successful,
  with the resource list built from the index name alone; a lookup that answers gives
  the resource list built from the index name and the embedding model name; a lookup
  that raises anything else makes the validator raise that exception.
\<close>

theorem serving_endpoint_lookup_best_effort:
  assumes "passes_checks env self idx details tc cols t"
    and "import_WorkspaceClient env = Inr ()"
    and "import_ResourceDoesNotExist env = Inr ()"
    and "new_WorkspaceClient env = Inr ()"
  shows "(serving_endpoints_get env (embedding_model_name self) = Inl ResourceDoesNotExist \<longrightarrow>
            snd (validate_tool_inputs env self) =
              Inr ((checked self idx details tc cols t)
                     \<lparr>resources := Some (get_resources env (index_name self) None)\<rparr>)) \<and>
         (serving_endpoints_get env (embedding_model_name self) = Inr () \<longrightarrow>
            snd (validate_tool_inputs env self) =
              Inr ((checked self idx details tc cols t)
                     \<lparr>resources := Some (get_resources env (index_name self)
                                            (embedding_model_name self))\<rparr>)) \<and>
         (\<forall>e. serving_endpoints_get env (embedding_model_name self) = Inl e \<longrightarrow>
              e \<noteq> ResourceDoesNotExist \<longrightarrow>
              snd (validate_tool_inputs env self) = Inl e)"
proof -
  note v = validate_after_checks [OF assms(1)]
  let ?s = "checked self idx details tc cols t"
  have nf: "snd (validate_tool_inputs env self) =
              Inr (?s\<lparr>resources := Some (get_resources env (index_name self) None)\<rparr>)"
    if "serving_endpoints_get env (embedding_model_name self) = Inl ResourceDoesNotExist"
    using that set_resources_lookup_fails [OF assms(2,3,4), of ?s ResourceDoesNotExist]
    by (simp add: v checked_fields on_lookup_error_def)
  have fd: "snd (validate_tool_inputs env self) =
              Inr (?s\<lparr>resources := Some (get_resources env (index_name self)
                                            (embedding_model_name self))\<rparr>)"
    if "serving_endpoints_get env (embedding_model_name self) = Inr ()"
    using that set_resources_found [OF assms(2,3,4), of ?s]
    by (simp add: v checked_fields)
  have ot: "snd (validate_tool_inputs env self) = Inl e"
    if "serving_endpoints_get env (embedding_model_name self) = Inl e"
      and "e \<noteq> ResourceDoesNotExist" for e
    using that set_resources_lookup_fails [OF assms(2,3,4), of ?s e]
    by (simp add: v checked_fields on_lookup_error_def)
  from nf fd ot show ?thesis by blast
qed

theorem serving_endpoint_lookup_best_effort_witness:
  "snd (validate_tool_inputs (example_env example_managed) example_tool) =
     Inr ((checked example_tool 7 example_managed ''text'' []
             (''catalog__schema__my_index_name'', ''A vector search-based retrieval tool''))
          \<lparr>resources := Some [''catalog.schema.my_index_name'']\<rparr>) \<and>
   snd (validate_tool_inputs
          ((example_env example_managed)
             \<lparr>serving_endpoints_get := (\<lambda>name. Inl (OtherError ''PermissionDenied''))\<rparr>)
          example_tool) = Inl (OtherError ''PermissionDenied'')"
proof -
  let ?t = "(''catalog__schema__my_index_name'', ''A vector search-based retrieval tool'')"
  let ?env' = "(example_env example_managed)
                 \<lparr>serving_endpoints_get := (\<lambda>name. Inl (OtherError ''PermissionDenied''))\<rparr>"
  have pc': "passes_checks ?env' example_tool 7 example_managed ''text'' [] ?t"
    by (simp add: passes_checks_later_steps example_passes_checks)
  have a: "snd (validate_tool_inputs (example_env example_managed) example_tool) =
     Inr ((checked example_tool 7 example_managed ''text'' [] ?t)
          \<lparr>resources := Some [''catalog.schema.my_index_name'']\<rparr>)"
    using serving_endpoint_lookup_best_effort [OF example_passes_checks]
    by (simp add: example_env_def example_tool_def)
  have b: "snd (validate_tool_inputs ?env' example_tool) = Inl (OtherError ''PermissionDenied'')"
    using serving_endpoint_lookup_best_effort [OF pc']
    by (simp add: example_env_def)
  from a b show ?thesis by simp
qed

text \<open>
  Claim C10. Once the checks have passed, the serving-endpoint lookup is called with
  the embedding model name as it is, \<open>None\<close> included (an index with managed embeddings
  passes the checks without a name). Only \<open>ResourceDoesNotExist\<close> is handled: any other
  exception of the workspace client's construction or of the lookup leaves the
  validator, and a failing import inside the \<open>try\<close> block ends it with
  \<open>UnboundLocalError\<close>, since the handler's class name is not bound yet.
\<close>

theorem lookup_attempted_whatever_the_name:
  assumes "passes_checks env self idx details tc cols t"
  shows "(import_WorkspaceClient env = Inr () \<longrightarrow> import_ResourceDoesNotExist env = Inr () \<longrightarrow>
          new_WorkspaceClient env = Inr () \<longrightarrow>
            Call_serving_endpoints_get (embedding_model_name self)
              \<in> set (fst (validate_tool_inputs env self))) \<and>
         (\<forall>e. import_WorkspaceClient env = Inr () \<longrightarrow> import_ResourceDoesNotExist env = Inr () \<longrightarrow>
              new_WorkspaceClient env = Inl e \<longrightarrow> e \<noteq> ResourceDoesNotExist \<longrightarrow>
              snd (validate_tool_inputs env self) = Inl e) \<and>
         (\<forall>e. import_WorkspaceClient env = Inr () \<longrightarrow> import_ResourceDoesNotExist env = Inr () \<longrightarrow>
              new_WorkspaceClient env = Inr () \<longrightarrow>
              serving_endpoints_get env (embedding_model_name self) = Inl e \<longrightarrow>
              e \<noteq> ResourceDoesNotExist \<longrightarrow>
              snd (validate_tool_inputs env self) = Inl e) \<and>
         (\<forall>e. import_WorkspaceClient env = Inl e \<or> import_ResourceDoesNotExist env = Inl e \<longrightarrow>
              snd (validate_tool_inputs env self) =
                Inl (UnboundLocalError ''ResourceDoesNotExist''))"
proof -
  note v = validate_after_checks [OF assms(1)]
  let ?s = "checked self idx details tc cols t"
  have att: "Call_serving_endpoints_get (embedding_model_name self)
               \<in> set (fst (validate_tool_inputs env self))"
    if i: "import_WorkspaceClient env = Inr ()" "import_ResourceDoesNotExist env = Inr ()"
      and c: "new_WorkspaceClient env = Inr ()"
  proof (cases "serving_endpoints_get env (embedding_model_name self)")
    case (Inl e)
    then show ?thesis
      using set_resources_lookup_fails [OF i c, of ?s e]
      by (simp add: v checked_fields on_lookup_error_def)
  next
    case (Inr u)
    then show ?thesis
      using set_resources_found [OF i c, of ?s]
      by (simp add: v checked_fields)
  qed
  have cl: "snd (validate_tool_inputs env self) = Inl e"
    if i: "import_WorkspaceClient env = Inr ()" "import_ResourceDoesNotExist env = Inr ()"
      and c: "new_WorkspaceClient env = Inl e" and ne: "e \<noteq> ResourceDoesNotExist" for e
    using ne set_resources_client_fails [OF i c, of ?s]
    by (simp add: v on_lookup_error_def)
  have lk: "snd (validate_tool_inputs env self) = Inl e"
    if i: "import_WorkspaceClient env = Inr ()" "import_ResourceDoesNotExist env = Inr ()"
      and c: "new_WorkspaceClient env = Inr ()"
      and l: "serving_endpoints_get env (embedding_model_name self) = Inl e"
      and ne: "e \<noteq> ResourceDoesNotExist" for e
    using ne l set_resources_lookup_fails [OF i c, of ?s e]
    by (simp add: v checked_fields on_lookup_error_def)
  have im: "snd (validate_tool_inputs env self) = Inl (UnboundLocalError ''ResourceDoesNotExist'')"
    if "import_WorkspaceClient env = Inl e \<or> import_ResourceDoesNotExist env = Inl e" for e
    using set_resources_imports_fail [OF that, of ?s] by (simp add: v)
  from att cl lk im show ?thesis by blast
qed

theorem lookup_attempted_whatever_the_name_witness:
  "embedding_model_name (example_tool :: (nat, string \<times> string, string) VectorSearchRetrieverTool) = None \<and>
   Call_serving_endpoints_get None
     \<in> set (fst (validate_tool_inputs (example_env example_managed) example_tool)) \<and>
   snd (validate_tool_inputs
          ((example_env example_managed)
             \<lparr>new_WorkspaceClient := Inl (ValueError ''cannot configure default credentials'')\<rparr>)
          example_tool) = Inl (ValueError ''cannot configure default credentials'') \<and>
   snd (validate_tool_inputs
          ((example_env example_managed)
             \<lparr>import_WorkspaceClient := Inl (OtherError ''ModuleNotFoundError'')\<rparr>)
          example_tool) = Inl (UnboundLocalError ''ResourceDoesNotExist'')"
proof -
  let ?t = "(''catalog__schema__my_index_name'', ''A vector search-based retrieval tool'')"
  let ?env1 = "(example_env example_managed)
             \<lparr>new_WorkspaceClient := Inl (ValueError ''cannot configure default credentials'')\<rparr>"
  let ?env2 = "(example_env example_managed)
             \<lparr>import_WorkspaceClient := Inl (OtherError ''ModuleNotFoundError'')\<rparr>"
  have pc1: "passes_checks ?env1 example_tool 7 example_managed ''text'' [] ?t"
    by (simp add: passes_checks_later_steps example_passes_checks)
  have pc2: "passes_checks ?env2 example_tool 7 example_managed ''text'' [] ?t"
    by (simp add: passes_checks_later_steps example_passes_checks)
  have a: "Call_serving_endpoints_get None
     \<in> set (fst (validate_tool_inputs (example_env example_managed) example_tool))"
    using lookup_attempted_whatever_the_name [OF example_passes_checks]
    by (simp add: example_env_def example_tool_def)
  have b: "snd (validate_tool_inputs ?env1 example_tool) =
             Inl (ValueError ''cannot configure default credentials'')"
    using lookup_attempted_whatever_the_name [OF pc1]
    by (simp add: example_env_def)
  have c: "snd (validate_tool_inputs ?env2 example_tool) =
             Inl (UnboundLocalError ''ResourceDoesNotExist'')"
    using lookup_attempted_whatever_the_name [OF pc2]
    by (simp add: example_env_def)
  from a b c show ?thesis by (simp add: example_tool_def)
qed

end
